theory Spec2Isabelle
  imports Complex_Main "HOL-Library.Multiset"
begin

section \<open>Strings and paths\<close>

text \<open>
  Python strings are modelled as \<open>string\<close>. The path functions follow \<open>posixpath\<close>:
  a path is absolute when it starts with a slash, and \<open>os.path.join a b\<close> drops \<open>a\<close>
  when \<open>b\<close> is absolute.
\<close>

definition lower_char :: "char \<Rightarrow> char" where
  "lower_char c =
     (case map_of (zip ''ABCDEFGHIJKLMNOPQRSTUVWXYZ'' ''abcdefghijklmnopqrstuvwxyz'') c of
        Some l \<Rightarrow> l
      | None \<Rightarrow> c)"

definition lower :: "string \<Rightarrow> string" where
  "lower s = map lower_char s"

definition endswith :: "string \<Rightarrow> string \<Rightarrow> bool" where
  "endswith s suf = (length suf \<le> length s \<and> drop (length s - length suf) s = suf)"

definition is_space :: "char \<Rightarrow> bool" where
  "is_space c = (c \<in> set [CHR 0x09, CHR 0x0A, CHR 0x0B, CHR 0x0C, CHR 0x0D, CHR '' ''])"

definition strip :: "string \<Rightarrow> string" where
  "strip s = rev (dropWhile is_space (rev (dropWhile is_space s)))"

definition isabs :: "string \<Rightarrow> bool" where
  "isabs p = (case p of [] \<Rightarrow> False | c # _ \<Rightarrow> c = CHR ''/'')"

definition path_join :: "string \<Rightarrow> string \<Rightarrow> string" where
  "path_join a b =
     (if isabs b then b
      else if a = [] \<or> last a = CHR ''/'' then a @ b
      else a @ ''/'' @ b)"

text \<open>Decimal rendering of an integer, as \<open>str\<close> and f-strings do.\<close>

definition digit_char :: "nat \<Rightarrow> char" where
  "digit_char d = ''0123456789'' ! d"

function str_nat :: "nat \<Rightarrow> string" where
  "str_nat n = (if n < 10 then [digit_char n] else str_nat (n div 10) @ [digit_char (n mod 10)])"
  by pat_completeness auto
termination
  by (relation "measure id") auto

declare str_nat.simps [simp del]

definition str_int :: "int \<Rightarrow> string" where
  "str_int i = (if i < 0 then CHR ''-'' # str_nat (nat (- i)) else str_nat (nat i))"

section \<open>Clips of the media backend\<close>

text \<open>
  The media backend (MoviePy) is outside the program. A clip is modelled as the
  expression that built it; a loaded clip carries the size (and, for a video or an audio
  file, the duration) read from the file.
\<close>

datatype audio =
    AudioFileClip string rat
  | Audio_loop audio rat
  | Subclip audio rat rat

fun audio_duration :: "audio \<Rightarrow> rat" where
  "audio_duration (AudioFileClip p d) = d"
| "audio_duration (Audio_loop a d) = d"
| "audio_duration (Subclip a t0 t1) = t1 - t0"

datatype clip =
    ImageClip string int int
  | VideoFileClip string int int rat
  | Resize_newsize clip int int
  | Resize_height clip int
  | Crop clip rat int
  | On_color clip int int
  | Set_duration clip rat
  | Crossfadein clip rat
  | Concatenate "clip list" rat
  | Set_audio clip audio

fun clip_h :: "clip \<Rightarrow> int" where
  "clip_h (ImageClip p w h) = h"
| "clip_h (VideoFileClip p w h d) = h"
| "clip_h (Resize_newsize c w h) = h"
| "clip_h (Resize_height c h) = h"
| "clip_h (Crop c xc w) = clip_h c"
| "clip_h (On_color c w h) = h"
| "clip_h (Set_duration c d) = clip_h c"
| "clip_h (Crossfadein c f) = clip_h c"
| "clip_h (Concatenate cs p) = fold max (map clip_h cs) 0"
| "clip_h (Set_audio c a) = clip_h c"

text \<open>
  \<open>resize(height=h)\<close> keeps the aspect ratio: the new width is the old width times
  \<open>h\<close> over the old height, truncated to an integer.
\<close>

fun clip_w :: "clip \<Rightarrow> int" where
  "clip_w (ImageClip p w h) = w"
| "clip_w (VideoFileClip p w h d) = w"
| "clip_w (Resize_newsize c w h) = w"
| "clip_w (Resize_height c h) = (clip_w c * h) div clip_h c"
| "clip_w (Crop c xc w) = w"
| "clip_w (On_color c w h) = w"
| "clip_w (Set_duration c d) = clip_w c"
| "clip_w (Crossfadein c f) = clip_w c"
| "clip_w (Concatenate cs p) = fold max (map clip_w cs) 0"
| "clip_w (Set_audio c a) = clip_w c"

text \<open>
  Modelled from the spec: the duration of a concatenation is what the spec's Timeline
  states for the backend's \<open>concatenate(segments, mode, padding)\<close>, the sum of the
  segment durations with the padding counted once per join. An image clip has no
  duration until \<open>set_duration\<close> gives it one.
\<close>

fun duration :: "clip \<Rightarrow> rat option" where
  "duration (ImageClip p w h) = None"
| "duration (VideoFileClip p w h d) = Some d"
| "duration (Resize_newsize c w h) = duration c"
| "duration (Resize_height c h) = duration c"
| "duration (Crop c xc w) = duration c"
| "duration (On_color c w h) = duration c"
| "duration (Set_duration c d) = Some d"
| "duration (Crossfadein c f) = duration c"
| "duration (Concatenate cs p) =
     (if list_all (\<lambda>c. duration c \<noteq> None) cs
      then Some (sum_list (map (\<lambda>c. the (duration c)) cs) + p * (of_nat (length cs) - 1))
      else None)"
| "duration (Set_audio c a) = duration c"

section \<open>Files, the world and the state\<close>

text \<open>
  What the program finds on disk. A file is known by what the backend can read from it:
  the size of an image, the size and duration of a video, the duration of an audio
  file. \<open>Truncated\<close> is a file whose writer stopped before the end, \<open>Rendered\<close> an
  encoded output video.
\<close>

datatype disk_file =
    ImageData int int
  | VideoData int int rat
  | AudioData rat
  | Truncated
  | Directory
  | Rendered clip

text \<open>How a write of the backend to a path ends.\<close>

datatype write_outcome = Written | Fails_before_writing | Fails_partway

text \<open>
  The world holds what the program does not decide: the working directory of the
  process, the system's temporary directory, the MD5 digest (\<open>hashlib\<close>), the outcome of
  each write and the draws of the random source.
\<close>

record world =
  cwd :: string
  tempdir :: string
  md5_hexdigest :: "string \<Rightarrow> string"
  disk_write :: "string \<Rightarrow> write_outcome"
  draws :: "nat \<Rightarrow> nat"

text \<open>
  The state is the disk, keyed by absolute path, and the position of the process-wide
  random source in its draws. \<open>producer_runs\<close> is a log the program does not keep:
  the cache file of every run of the frame-producing branch, in order.
\<close>

record state =
  files :: "string \<rightharpoonup> disk_file"
  rng_pos :: nat
  producer_runs :: "string list"

datatype error =
    ValueError string
  | IndexError string
  | AttributeError string
  | TypeError string
  | BackendError string

fun str_error :: "error \<Rightarrow> string" where
  "str_error (ValueError m) = m"
| "str_error (IndexError m) = m"
| "str_error (AttributeError m) = m"
| "str_error (TypeError m) = m"
| "str_error (BackendError m) = m"

definition abspath :: "world \<Rightarrow> string \<Rightarrow> string" where
  "abspath w p = (if isabs p then p else path_join (cwd w) p)"

text \<open>The empty path names nothing: both tests are false for it.\<close>

definition os_path_exists :: "world \<Rightarrow> state \<Rightarrow> string \<Rightarrow> bool" where
  "os_path_exists w s p = (p \<noteq> [] \<and> files s (abspath w p) \<noteq> None)"

definition os_path_isfile :: "world \<Rightarrow> state \<Rightarrow> string \<Rightarrow> bool" where
  "os_path_isfile w s p =
     (p \<noteq> [] \<and>
      (case files s (abspath w p) of None \<Rightarrow> False | Some Directory \<Rightarrow> False | Some _ \<Rightarrow> True))"

subsection \<open>Loading and saving through the backend\<close>

definition load_image :: "world \<Rightarrow> state \<Rightarrow> string \<Rightarrow> error + clip" where
  "load_image w s p =
     (case files s (abspath w p) of
        Some (ImageData iw ih) \<Rightarrow> Inr (ImageClip p iw ih)
      | _ \<Rightarrow> Inl (BackendError (''cannot read image '' @ p)))"

definition load_video :: "world \<Rightarrow> state \<Rightarrow> string \<Rightarrow> error + clip" where
  "load_video w s p =
     (case files s (abspath w p) of
        Some (VideoData vw vh d) \<Rightarrow> Inr (VideoFileClip p vw vh d)
      | _ \<Rightarrow> Inl (BackendError (''cannot read video '' @ p)))"

definition load_audio :: "world \<Rightarrow> state \<Rightarrow> string \<Rightarrow> error + audio" where
  "load_audio w s p =
     (case files s (abspath w p) of
        Some (AudioData d) \<Rightarrow> Inr (AudioFileClip p d)
      | _ \<Rightarrow> Inl (BackendError (''cannot read audio '' @ p)))"

text \<open>
  \<open>save_frame\<close> and \<open>write_videofile\<close> write at the path they are given. A write that
  fails partway leaves a truncated file there.
\<close>

definition write_file :: "world \<Rightarrow> string \<Rightarrow> disk_file \<Rightarrow> state \<Rightarrow> (error + unit) \<times> state" where
  "write_file w p f s =
     (case disk_write w (abspath w p) of
        Written \<Rightarrow> (Inr (), s\<lparr>files := (files s)(abspath w p \<mapsto> f)\<rparr>)
      | Fails_before_writing \<Rightarrow> (Inl (BackendError (''cannot write '' @ p)), s)
      | Fails_partway \<Rightarrow>
          (Inl (BackendError (''cannot write '' @ p)),
           s\<lparr>files := (files s)(abspath w p \<mapsto> Truncated)\<rparr>))"

definition save_frame :: "world \<Rightarrow> clip \<Rightarrow> string \<Rightarrow> state \<Rightarrow> (error + unit) \<times> state" where
  "save_frame w c p s = write_file w p (ImageData (clip_w c) (clip_h c)) s"

definition write_videofile :: "world \<Rightarrow> clip \<Rightarrow> string \<Rightarrow> state \<Rightarrow> (error + unit) \<times> state" where
  "write_videofile w c p s = write_file w p (Rendered c) s"

section \<open>The disk cache of processed frames\<close>

definition DISK_CACHE_DIR :: "world \<Rightarrow> string" where
  "DISK_CACHE_DIR w = path_join (tempdir w) ''video_export_cache''"

definition cache_key :: "string \<Rightarrow> int \<Rightarrow> int \<Rightarrow> string" where
  "cache_key file_path width height = file_path @ ''_'' @ str_int width @ ''_'' @ str_int height"

definition cache_file :: "world \<Rightarrow> string \<Rightarrow> int \<Rightarrow> int \<Rightarrow> string" where
  "cache_file w file_path width height =
     path_join (DISK_CACHE_DIR w) (md5_hexdigest w (cache_key file_path width height) @ ''.png'')"

text \<open>
  The crop-or-pad step after a resize, written three times in \<open>run\<close> (video, image,
  closing image): crop around the centre when the clip is wider than the target, put it
  on a black canvas of the target size when it is narrower.
\<close>

definition crop_or_pad :: "clip \<Rightarrow> int \<Rightarrow> int \<Rightarrow> clip" where
  "crop_or_pad c width height =
     (if clip_w c > width then Crop c (of_int (clip_w c) / 2) width
      else if clip_w c < width then On_color c width height
      else c)"

text \<open>
  The block under \<open>DISK_CACHE_LOCK\<close> (lines 106 to 119, and again 129 to 142 for the
  closing image). The lock makes the block one step: no other job runs between the
  test and the write.
\<close>

definition processed_file ::
  "world \<Rightarrow> string \<Rightarrow> int \<Rightarrow> int \<Rightarrow> state \<Rightarrow> (error + string) \<times> state" where
  "processed_file w file_path width height s =
     (let cf = cache_file w file_path width height in
      if os_path_exists w s cf then (Inr cf, s)
      else
        (let s0 = s\<lparr>producer_runs := producer_runs s @ [cf]\<rparr> in
         case load_image w s0 file_path of
           Inl e \<Rightarrow> (Inl e, s0)
         | Inr img \<Rightarrow>
             (let clip_proc = crop_or_pad (Resize_height img height) width height in
              case save_frame w clip_proc cf s0 of
                (Inl e, s1) \<Rightarrow> (Inl e, s1)
              | (Inr u, s1) \<Rightarrow> (Inr cf, s1))))"

section \<open>Random selection\<close>

text \<open>
  \<open>random.sample\<close> draws positions without replacement: each draw picks one of the
  entries still in the pool and takes it out. \<open>random.choices\<close> draws every position
  from the whole list. Both read the draws of the world from the current position.
\<close>

fun sample_from :: "'a list \<Rightarrow> nat \<Rightarrow> (nat \<Rightarrow> nat) \<Rightarrow> nat \<Rightarrow> 'a list" where
  "sample_from pool 0 rs i = []"
| "sample_from pool (Suc k) rs i =
     (let j = rs i mod length pool
      in pool ! j # sample_from (take j pool @ drop (Suc j) pool) k rs (Suc i))"

definition random_sample ::
  "world \<Rightarrow> 'a list \<Rightarrow> int \<Rightarrow> state \<Rightarrow> (error + 'a list) \<times> state" where
  "random_sample w population k s =
     (if 0 \<le> k \<and> k \<le> int (length population)
      then (Inr (sample_from population (nat k) (draws w) (rng_pos s)),
            s\<lparr>rng_pos := rng_pos s + nat k\<rparr>)
      else (Inl (ValueError ''Sample larger than population or is negative''), s))"

definition random_choices ::
  "world \<Rightarrow> 'a list \<Rightarrow> int \<Rightarrow> state \<Rightarrow> (error + 'a list) \<times> state" where
  "random_choices w population k s =
     (if k \<le> 0 then (Inr [], s)
      else if population = [] then (Inl (IndexError ''list index out of range''), s)
      else (Inr (map (\<lambda>i. population ! (draws w (rng_pos s + i) mod length population))
                   [0..<nat k]),
            s\<lparr>rng_pos := rng_pos s + nat k\<rparr>))"

section \<open>The export task\<close>

record export_params =
  images_per_video :: int
  width :: int
  height :: int
  per_image_time :: rat
  fade_duration :: rat
  audio_file :: "string option"
  output_folder :: string
  crossfade :: bool
  closing_image :: "string option"

record task =
  base_dir :: string
  files_list :: "string list"
  params :: export_params
  video_idx :: int

datatype signal = Progress int | Error string | Finished

subsection \<open>\<open>crossfade_consecutive_clips\<close>\<close>

definition crossfade_consecutive_clips :: "clip list \<Rightarrow> rat \<Rightarrow> clip option" where
  "crossfade_consecutive_clips clips fade =
     (case clips of
        [] \<Rightarrow> None
      | [c] \<Rightarrow> Some c
      | c # rest \<Rightarrow> Some (Concatenate (c # map (\<lambda>x. Crossfadein x fade) rest) (- fade)))"

subsection \<open>\<open>VideoExportTask.run\<close>\<close>

text \<open>Lines 80 to 83: the selection.\<close>

definition sample_files :: "world \<Rightarrow> task \<Rightarrow> state \<Rightarrow> (error + string list) \<times> state" where
  "sample_files w t s =
     (if int (length (files_list t)) < images_per_video (params t)
      then random_choices w (files_list t) (images_per_video (params t)) s
      else random_sample w (files_list t) (images_per_video (params t)) s)"

text \<open>Lines 88 and 89, and 126 and 127: a relative path is joined to the base directory.\<close>

definition resolve :: "task \<Rightarrow> string \<Rightarrow> string" where
  "resolve t p = (if \<not> isabs p then path_join (base_dir t) p else p)"

definition is_video_path :: "string \<Rightarrow> bool" where
  "is_video_path file_path =
     (let lower_path = lower file_path
      in endswith lower_path ''.mp4'' \<or> endswith lower_path ''.mov'' \<or> endswith lower_path ''.avi'')"

text \<open>Lines 97 to 103: a video is resized to the target size, then cropped or padded.\<close>

definition video_clip :: "world \<Rightarrow> task \<Rightarrow> string \<Rightarrow> state \<Rightarrow> error + clip" where
  "video_clip w t file_path s =
     (case load_video w s file_path of
        Inl e \<Rightarrow> Inl e
      | Inr v \<Rightarrow>
          Inr (crop_or_pad (Resize_newsize v (width (params t)) (height (params t)))
                 (width (params t)) (height (params t))))"

text \<open>
  Lines 106 to 121, and 129 to 143 with the fixed 3 seconds: an image goes through the
  disk cache, and the cached frame is loaded and given its duration.
\<close>

definition image_clip ::
  "world \<Rightarrow> task \<Rightarrow> string \<Rightarrow> rat \<Rightarrow> state \<Rightarrow> (error + clip) \<times> state" where
  "image_clip w t file_path d s =
     (case processed_file w file_path (width (params t)) (height (params t)) s of
        (Inl e, s1) \<Rightarrow> (Inl e, s1)
      | (Inr pf, s1) \<Rightarrow>
          (case load_image w s1 pf of
             Inl e \<Rightarrow> (Inl e, s1)
           | Inr img \<Rightarrow> (Inr (Set_duration img d), s1)))"

text \<open>The body of the loop over the selected files; \<open>None\<close> is the \<open>continue\<close>.\<close>

definition asset_clip ::
  "world \<Rightarrow> task \<Rightarrow> string \<Rightarrow> state \<Rightarrow> (error + clip option) \<times> state" where
  "asset_clip w t fp s =
     (let file_path = resolve t fp in
      if \<not> os_path_isfile w s file_path then (Inr None, s)
      else if is_video_path file_path then
        (case video_clip w t file_path s of
           Inl e \<Rightarrow> (Inl e, s)
         | Inr c \<Rightarrow> (Inr (Some c), s))
      else
        (case image_clip w t file_path (per_image_time (params t)) s of
           (Inl e, s1) \<Rightarrow> (Inl e, s1)
         | (Inr c, s1) \<Rightarrow> (Inr (Some c), s1)))"

fun asset_clips ::
  "world \<Rightarrow> task \<Rightarrow> string list \<Rightarrow> state \<Rightarrow> (error + clip list) \<times> state" where
  "asset_clips w t [] s = (Inr [], s)"
| "asset_clips w t (fp # fps) s =
     (case asset_clip w t fp s of
        (Inl e, s1) \<Rightarrow> (Inl e, s1)
      | (Inr r, s1) \<Rightarrow>
          (case asset_clips w t fps s1 of
             (Inl e, s2) \<Rightarrow> (Inl e, s2)
           | (Inr cs, s2) \<Rightarrow> (Inr (case r of None \<Rightarrow> cs | Some c \<Rightarrow> c # cs), s2)))"

text \<open>Lines 124 to 143: the closing image.\<close>

definition closing_clip ::
  "world \<Rightarrow> task \<Rightarrow> state \<Rightarrow> (error + clip option) \<times> state" where
  "closing_clip w t s =
     (case closing_image (params t) of
        None \<Rightarrow> (Inr None, s)
      | Some ci \<Rightarrow>
          if ci \<noteq> [] \<and> strip ci \<noteq> [] then
            (let ci' = resolve t ci in
             if os_path_isfile w s ci' then
               (case image_clip w t ci' 3 s of
                  (Inl e, s1) \<Rightarrow> (Inl e, s1)
                | (Inr c, s1) \<Rightarrow> (Inr (Some c), s1))
             else (Inr None, s))
          else (Inr None, s))"

text \<open>Lines 149 to 158: the final clip.\<close>

definition final_clip :: "task \<Rightarrow> clip list \<Rightarrow> clip option \<Rightarrow> error + clip" where
  "final_clip t clips closing =
     (if crossfade (params t) then
        (case crossfade_consecutive_clips clips (fade_duration (params t)) of
           None \<Rightarrow> Inl (AttributeError ''NoneType'')
         | Some main_clip \<Rightarrow>
             (case closing of
                Some cc \<Rightarrow> Inr (Concatenate [main_clip, cc] 0)
              | None \<Rightarrow> Inr main_clip))
      else
        (case closing of
           Some cc \<Rightarrow> Inr (Concatenate (clips @ [cc]) 0)
         | None \<Rightarrow> Inr (Concatenate clips 0)))"

text \<open>Lines 161 to 167: the audio track.\<close>

definition fit_audio :: "audio \<Rightarrow> rat \<Rightarrow> audio" where
  "fit_audio audio_clip T =
     (if audio_duration audio_clip < T then Audio_loop audio_clip T
      else Subclip audio_clip 0 T)"

definition attach_audio :: "world \<Rightarrow> task \<Rightarrow> clip \<Rightarrow> state \<Rightarrow> error + clip" where
  "attach_audio w t fc s =
     (case audio_file (params t) of
        None \<Rightarrow> Inr fc
      | Some af \<Rightarrow>
          if af \<noteq> [] \<and> os_path_isfile w s af then
            (case load_audio w s af of
               Inl e \<Rightarrow> Inl e
             | Inr audio_clip \<Rightarrow>
                 (case duration fc of
                    None \<Rightarrow> Inl (TypeError ''NoneType'')
                  | Some T \<Rightarrow> Inr (Set_audio fc (fit_audio audio_clip T))))
          else Inr fc)"

definition output_path :: "task \<Rightarrow> string" where
  "output_path t =
     path_join (output_folder (params t)) (''video_'' @ str_int (video_idx t) @ ''.mp4'')"

text \<open>The body of the \<open>try\<close>, lines 69 to 178.\<close>

definition run_body :: "world \<Rightarrow> task \<Rightarrow> state \<Rightarrow> (error + unit) \<times> state" where
  "run_body w t s =
     (case sample_files w t s of
        (Inl e, s0) \<Rightarrow> (Inl e, s0)
      | (Inr sel, s0) \<Rightarrow>
     (case asset_clips w t sel s0 of
        (Inl e, s1) \<Rightarrow> (Inl e, s1)
      | (Inr clips, s1) \<Rightarrow>
     (case closing_clip w t s1 of
        (Inl e, s2) \<Rightarrow> (Inl e, s2)
      | (Inr closing, s2) \<Rightarrow>
          if clips = [] then
            (Inl (ValueError ''No valid files to process for video creation.''), s2)
          else
     (case final_clip t clips closing of
        Inl e \<Rightarrow> (Inl e, s2)
      | Inr fc \<Rightarrow>
     (case attach_audio w t fc s2 of
        Inl e \<Rightarrow> (Inl e, s2)
      | Inr fc' \<Rightarrow> write_videofile w fc' (output_path t) s2)))))"

text \<open>
  \<open>run\<close>: the signals it emits, in order, and the state it leaves. Line 180 after a
  body that returns, line 182 after one that raises, line 183 in both cases.
\<close>

definition run :: "world \<Rightarrow> task \<Rightarrow> state \<Rightarrow> signal list \<times> state" where
  "run w t s =
     (case run_body w t s of
        (Inr u, s') \<Rightarrow> ([Progress (video_idx t), Finished], s')
      | (Inl e, s') \<Rightarrow>
          ([Error (''Error in video '' @ str_int (video_idx t) @ '': '' @ str_error e), Finished],
           s'))"

subsection \<open>\<open>start_export\<close>: one task per output video\<close>

text \<open>
  Lines 364 to 369 create one task per index and hand it to the thread pool. Each
  started task runs its own \<open>run\<close>; here the tasks run one after another, in the order
  of the list, on the disk the tasks before left.
\<close>

fun run_all :: "world \<Rightarrow> task list \<Rightarrow> state \<Rightarrow> signal list \<times> state" where
  "run_all w [] s = ([], s)"
| "run_all w (t # ts) s =
     (case run w t s of
        (sigs, s1) \<Rightarrow> (case run_all w ts s1 of (sigs', s2) \<Rightarrow> (sigs @ sigs', s2)))"

fun is_outcome :: "signal \<Rightarrow> bool" where
  "is_outcome (Progress i) = True"
| "is_outcome (Error m) = True"
| "is_outcome Finished = False"

text \<open>
  The outcome signal that belongs to a task: its index on success, a message that
  starts with its index on failure.
\<close>

definition outcome_of :: "task \<Rightarrow> signal \<Rightarrow> bool" where
  "outcome_of t sig =
     (let pre = ''Error in video '' @ str_int (video_idx t) @ '': '' in
      case sig of
        Progress i \<Rightarrow> i = video_idx t
      | Error m \<Rightarrow> take (length pre) m = pre
      | Finished \<Rightarrow> False)"

text \<open>Whether the pictures of a clip come from a video file.\<close>

fun video_backed :: "clip \<Rightarrow> bool" where
  "video_backed (ImageClip p w h) = False"
| "video_backed (VideoFileClip p w h d) = True"
| "video_backed (Resize_newsize c w h) = video_backed c"
| "video_backed (Resize_height c h) = video_backed c"
| "video_backed (Crop c xc w) = video_backed c"
| "video_backed (On_color c w h) = video_backed c"
| "video_backed (Set_duration c d) = video_backed c"
| "video_backed (Crossfadein c f) = video_backed c"
| "video_backed (Concatenate cs p) = list_ex video_backed cs"
| "video_backed (Set_audio c a) = video_backed c"

section \<open>What the specification says of a video source\<close>

text \<open>
  The specification's words for a video-backed source: resize to the target height
  preserving the aspect ratio, then crop or pad to the target width.
\<close>

definition spec_normalize_video :: "clip \<Rightarrow> int \<Rightarrow> int \<Rightarrow> clip" where
  "spec_normalize_video v target_w target_h =
     crop_or_pad (Resize_height v target_h) target_w target_h"

section \<open>Example inputs\<close>

text \<open>
  A world whose writes all succeed and one whose writes all stop partway, a disk with a
  video, two images and two audio files under \<open>/base\<close>, and a task for two files with
  a closing image and a relative audio path. In the examples the length of the key
  stands for its digest, which keeps the cache files of the example keys apart.
\<close>

definition ex_world :: world where
  "ex_world =
     \<lparr>cwd = ''/work'', tempdir = ''/tmp'', md5_hexdigest = (\<lambda>k. str_nat (length k)),
      disk_write = (\<lambda>p. Written), draws = (\<lambda>i. i)\<rparr>"

definition ex_world_full_disk :: world where
  "ex_world_full_disk = ex_world\<lparr>disk_write := (\<lambda>p. Fails_partway)\<rparr>"

definition ex_state :: state where
  "ex_state =
     \<lparr>files = [''/base/a.mp4'' \<mapsto> VideoData 1920 1080 10,
               ''/base/x.png'' \<mapsto> ImageData 400 300,
               ''/base/end.mp4'' \<mapsto> ImageData 1080 1080,
               ''/base/song.mp3'' \<mapsto> AudioData 4,
               ''/base/long.mp3'' \<mapsto> AudioData 12],
      rng_pos = 0, producer_runs = []\<rparr>"

definition ex_params :: export_params where
  "ex_params =
     \<lparr>images_per_video = 2, width = 1080, height = 1080, per_image_time = 2,
      fade_duration = 1, audio_file = Some ''song.mp3'', output_folder = ''/out'',
      crossfade = True, closing_image = Some ''end.mp4''\<rparr>"

definition ex_task :: task where
  "ex_task =
     \<lparr>base_dir = ''/base'', files_list = [''a.mp4'', ''x.png''], params = ex_params,
      video_idx = 1\<rparr>"

section \<open>Crossfade assembly\<close>

lemma map_duration_Crossfadein:
  "map duration cs = map Some ds \<Longrightarrow> map duration (map (\<lambda>x. Crossfadein x f) cs) = map Some ds"
  by (induction cs arbitrary: ds) auto

lemma duration_Concatenate:
  "map duration cs = map Some ds \<Longrightarrow>
   duration (Concatenate cs p) = Some (sum_list ds + p * (of_nat (length cs) - 1))"
proof (induction cs arbitrary: ds)
  case Nil
  then show ?case by simp
next
  case (Cons c cs)
  then obtain d ds' where ds: "ds = d # ds'" "duration c = Some d" "map duration cs = map Some ds'"
    by (cases ds) auto
  from Cons.IH[OF ds(3)] ds show ?case
    by (auto simp: algebra_simps split: if_splits)
qed

text \<open>
  Claim C6. For \<open>k \<ge> 2\<close> segments with durations \<open>ds\<close> and fade duration \<open>f\<close>,
  \<open>crossfade_consecutive_clips\<close> keeps segment 0 as it is, gives every later segment a
  crossfade-in of \<open>f\<close> seconds and concatenates them with padding \<open>- f\<close>; the duration of
  the main body is the sum of the segment durations minus \<open>(k - 1) * f\<close>.
\<close>

theorem crossfade_main_body_duration:
  assumes "2 \<le> length clips" and "map duration clips = map Some ds"
  shows "crossfade_consecutive_clips clips f
           = Some (Concatenate (hd clips # map (\<lambda>x. Crossfadein x f) (tl clips)) (- f))
         \<and> Option.bind (crossfade_consecutive_clips clips f) duration
           = Some (sum_list ds - (of_nat (length clips) - 1) * f)"
proof -
  from assms(1) obtain c c' rest where cl: "clips = c # c' # rest"
    by (cases clips; cases "tl clips") auto
  have built: "crossfade_consecutive_clips clips f
           = Some (Concatenate (hd clips # map (\<lambda>x. Crossfadein x f) (tl clips)) (- f))"
    by (simp add: cl crossfade_consecutive_clips_def)
  from assms(2) cl obtain d ds' where ds: "ds = d # ds'" "duration c = Some d"
      "map duration (c' # rest) = map Some ds'"
    by (cases ds) auto
  have "map duration (c # map (\<lambda>x. Crossfadein x f) (c' # rest)) = map Some ds"
    using map_duration_Crossfadein[OF ds(3), of f] ds by simp
  from duration_Concatenate[OF this, of "- f"] have
    "duration (Concatenate (c # map (\<lambda>x. Crossfadein x f) (c' # rest)) (- f))
       = Some (sum_list ds - (of_nat (length clips) - 1) * f)"
    by (simp add: cl algebra_simps)
  with built show ?thesis by (simp add: cl)
qed

text \<open>Three segments of 2 seconds with a fade of half a second give 5 seconds.\<close>

theorem crossfade_main_body_duration_witness:
  "2 \<le> length [Set_duration (ImageClip ''a'' 4 4) 2, Set_duration (ImageClip ''b'' 4 4) 2,
                 Set_duration (ImageClip ''c'' 4 4) 2]
   \<and> Option.bind (crossfade_consecutive_clips
        [Set_duration (ImageClip ''a'' 4 4) 2, Set_duration (ImageClip ''b'' 4 4) 2,
         Set_duration (ImageClip ''c'' 4 4) 2] (1/2)) duration = Some 5"
  using crossfade_main_body_duration [of "[Set_duration (ImageClip ''a'' 4 4) 2,
      Set_duration (ImageClip ''b'' 4 4) 2, Set_duration (ImageClip ''c'' 4 4) 2]" "[2, 2, 2]" "1/2"]
  by simp

section \<open>Evaluating the examples\<close>



section \<open>Video sources\<close>

text \<open>
  Claim C1. The specification has a video-backed source resized to the target height
  with its aspect ratio kept, then cropped or padded to the target width. \<open>run\<close> resizes
  the video to the target width and height at once, so neither the crop nor the padding
  ever applies: a 1920 by 1080 video for a 1080 by 1080 canvas is squeezed to 1080 by
  1080, where the specification asks for the 960-centred crop of the 1920 by 1080 frame.
\<close>

theorem video_clip_at_failing_input:
  "video_clip ex_world ex_task ''/base/a.mp4'' ex_state
     = Inr (Resize_newsize (VideoFileClip ''/base/a.mp4'' 1920 1080 10) 1080 1080)
   \<and> spec_normalize_video (VideoFileClip ''/base/a.mp4'' 1920 1080 10) 1080 1080
     = Crop (Resize_height (VideoFileClip ''/base/a.mp4'' 1920 1080 10) 1080) 960 1080"
  by (simp add: video_clip_def crop_or_pad_def load_video_def abspath_def isabs_def
      ex_world_def ex_task_def ex_state_def ex_params_def spec_normalize_video_def)

section \<open>The audio track\<close>

lemma audio_duration_fit_audio: "audio_duration (fit_audio a T) = T"
  by (simp add: fit_audio_def)



section \<open>Video or image\<close>

lemma video_backed_crop_or_pad [simp]: "video_backed (crop_or_pad c wd ht) = video_backed c"
  by (simp add: crop_or_pad_def)

lemma video_clip_backed: "video_clip w t p s = Inr c \<Longrightarrow> video_backed c"
  by (auto simp: video_clip_def load_video_def split: sum.splits option.splits disk_file.splits)

lemma image_clip_backed: "fst (image_clip w t p d s) = Inr c \<Longrightarrow> \<not> video_backed c"
  by (auto simp: image_clip_def load_image_def split: sum.splits option.splits disk_file.splits prod.splits)

text \<open>
  Claim C8. A selected asset whose resolved path is an existing file takes the video
  branch exactly when the lowercased path ends with \<open>.mp4\<close>, \<open>.mov\<close> or \<open>.avi\<close>, and
  the image branch otherwise; the clip it yields is video-backed exactly in the first
  case. The clip of the closing image is never video-backed, whatever its extension.
\<close>

theorem video_backed_iff_extension:
  "(os_path_isfile w s (resolve t fp) \<longrightarrow>
      asset_clip w t fp s =
        (if endswith (lower (resolve t fp)) ''.mp4'' \<or> endswith (lower (resolve t fp)) ''.mov''
            \<or> endswith (lower (resolve t fp)) ''.avi''
         then (case video_clip w t (resolve t fp) s of
                 Inl e \<Rightarrow> (Inl e, s) | Inr c \<Rightarrow> (Inr (Some c), s))
         else (case image_clip w t (resolve t fp) (per_image_time (params t)) s of
                 (Inl e, s1) \<Rightarrow> (Inl e, s1) | (Inr c, s1) \<Rightarrow> (Inr (Some c), s1))))
   \<and> (fst (asset_clip w t fp s) = Inr (Some c) \<longrightarrow>
        (video_backed c \<longleftrightarrow>
           endswith (lower (resolve t fp)) ''.mp4'' \<or> endswith (lower (resolve t fp)) ''.mov''
            \<or> endswith (lower (resolve t fp)) ''.avi''))
   \<and> (fst (closing_clip w t s) = Inr (Some c') \<longrightarrow> \<not> video_backed c')"
proof (intro conjI impI)
  assume "os_path_isfile w s (resolve t fp)"
  then show "asset_clip w t fp s =
        (if endswith (lower (resolve t fp)) ''.mp4'' \<or> endswith (lower (resolve t fp)) ''.mov''
            \<or> endswith (lower (resolve t fp)) ''.avi''
         then (case video_clip w t (resolve t fp) s of
                 Inl e \<Rightarrow> (Inl e, s) | Inr c \<Rightarrow> (Inr (Some c), s))
         else (case image_clip w t (resolve t fp) (per_image_time (params t)) s of
                 (Inl e, s1) \<Rightarrow> (Inl e, s1) | (Inr c, s1) \<Rightarrow> (Inr (Some c), s1)))"
    by (simp add: asset_clip_def is_video_path_def Let_def)
next
  assume a: "fst (asset_clip w t fp s) = Inr (Some c)"
  show "video_backed c \<longleftrightarrow>
           endswith (lower (resolve t fp)) ''.mp4'' \<or> endswith (lower (resolve t fp)) ''.mov''
            \<or> endswith (lower (resolve t fp)) ''.avi''"
  proof (cases "is_video_path (resolve t fp)")
    case True
    with a have "video_clip w t (resolve t fp) s = Inr c"
      by (auto simp: asset_clip_def Let_def split: if_splits sum.splits)
    from video_clip_backed[OF this] True show ?thesis
      by (simp add: is_video_path_def Let_def)
  next
    case False
    with a have "fst (image_clip w t (resolve t fp) (per_image_time (params t)) s) = Inr c"
      by (auto simp: asset_clip_def Let_def split: if_splits sum.splits prod.splits)
    from image_clip_backed[OF this] False show ?thesis
      by (simp add: is_video_path_def Let_def)
  qed
next
  assume "fst (closing_clip w t s) = Inr (Some c')"
  then have "\<exists>p. fst (image_clip w t p 3 s) = Inr c'"
    by (auto simp: closing_clip_def Let_def split: option.splits if_splits sum.splits prod.splits)
      (metis fst_conv)
  then show "\<not> video_backed c'" using image_clip_backed by blast
qed

text \<open>
  \<open>a.mp4\<close> is loaded as a video, \<open>x.png\<close> as an image through the cache, and the
  closing image \<open>end.mp4\<close> as an image through the cache too.
\<close>

theorem video_backed_iff_extension_witness:
  "os_path_isfile ex_world ex_state (resolve ex_task ''a.mp4'')
   \<and> endswith (lower (resolve ex_task ''a.mp4'')) ''.mp4''
   \<and> fst (asset_clip ex_world ex_task ''a.mp4'' ex_state)
       = Inr (Some (Resize_newsize (VideoFileClip ''/base/a.mp4'' 1920 1080 10) 1080 1080))
   \<and> video_backed (Resize_newsize (VideoFileClip ''/base/a.mp4'' 1920 1080 10) 1080 1080)
   \<and> fst (asset_clip ex_world ex_task ''x.png'' ex_state)
       = Inr (Some (Set_duration (ImageClip ''/tmp/video_export_cache/21.png'' 1080 1080) 2))
   \<and> \<not> video_backed (Set_duration (ImageClip ''/tmp/video_export_cache/21.png'' 1080 1080) 2)
   \<and> endswith (lower (resolve ex_task ''end.mp4'')) ''.mp4''
   \<and> fst (closing_clip ex_world ex_task ex_state)
       = Inr (Some (Set_duration (ImageClip ''/tmp/video_export_cache/23.png'' 1080 1080) 3))
   \<and> \<not> video_backed (Set_duration (ImageClip ''/tmp/video_export_cache/23.png'' 1080 1080) 3)"
proof -
  have e1: "os_path_isfile ex_world ex_state (resolve ex_task ''a.mp4'')"
    and e2: "endswith (lower (resolve ex_task ''a.mp4'')) ''.mp4''"
    and e3: "endswith (lower (resolve ex_task ''end.mp4'')) ''.mp4''"
    by code_simp+
  have a1: "fst (asset_clip ex_world ex_task ''a.mp4'' ex_state)
       = Inr (Some (Resize_newsize (VideoFileClip ''/base/a.mp4'' 1920 1080 10) 1080 1080))"
    by code_simp
  have a2: "fst (asset_clip ex_world ex_task ''x.png'' ex_state)
       = Inr (Some (Set_duration (ImageClip ''/tmp/video_export_cache/21.png'' 1080 1080) 2))"
    by code_simp
  have a3: "fst (closing_clip ex_world ex_task ex_state)
       = Inr (Some (Set_duration (ImageClip ''/tmp/video_export_cache/23.png'' 1080 1080) 3))"
    by code_simp
  show ?thesis
    using e1 e2 e3 a1 a2 a3
      video_backed_iff_extension [of ex_world ex_state ex_task "''a.mp4''"
        "Resize_newsize (VideoFileClip ''/base/a.mp4'' 1920 1080 10) 1080 1080"
        "Set_duration (ImageClip ''/tmp/video_export_cache/23.png'' 1080 1080) 3"]
      video_backed_iff_extension [of ex_world ex_state ex_task "''x.png''"
        "Set_duration (ImageClip ''/tmp/video_export_cache/21.png'' 1080 1080) 2"]
    by simp
qed

section \<open>No usable asset\<close>

lemma asset_clips_all_missing:
  "\<forall>fp\<in>set sel. \<not> os_path_isfile w s (resolve t fp) \<Longrightarrow> asset_clips w t sel s = (Inr [], s)"
  by (induction sel) (auto simp: asset_clip_def Let_def)

text \<open>
  Claim C9. When none of the selected files resolves to an existing file, the job
  fails with the message of line 146, also when the closing image was prepared: the
  closing clip is made first (its cached frame stays on disk), and the test of line
  145 looks at the clips of the selected files only.
\<close>

theorem no_usable_asset_fails:
  assumes "fst (sample_files w t s) = Inr sel"
    and "\<forall>fp\<in>set sel. \<not> os_path_isfile w (snd (sample_files w t s)) (resolve t fp)"
    and "fst (closing_clip w t (snd (sample_files w t s))) = Inr (Some cc)"
  shows "run w t s =
           ([Error (''Error in video '' @ str_int (video_idx t)
                     @ '': No valid files to process for video creation.''), Finished],
            snd (closing_clip w t (snd (sample_files w t s))))"
proof -
  obtain s0 where s0: "sample_files w t s = (Inr sel, s0)"
    using assms(1) by (cases "sample_files w t s") auto
  obtain s2 where s2: "closing_clip w t s0 = (Inr (Some cc), s2)"
    using assms(3) s0 by (cases "closing_clip w t s0") auto
  from assms(2) s0 have "asset_clips w t sel s0 = (Inr [], s0)"
    by (simp add: asset_clips_all_missing)
  with s0 s2 show ?thesis
    by (simp add: run_def run_body_def)
qed

text \<open>A list whose only file is missing, with the closing image \<open>end.mp4\<close> in place.\<close>

theorem no_usable_asset_fails_witness:
  "fst (sample_files ex_world (ex_task\<lparr>files_list := [''gone.png'']\<rparr>) ex_state)
     = Inr [''gone.png'', ''gone.png'']
   \<and> \<not> os_path_isfile ex_world
        (snd (sample_files ex_world (ex_task\<lparr>files_list := [''gone.png'']\<rparr>) ex_state))
        (resolve (ex_task\<lparr>files_list := [''gone.png'']\<rparr>) ''gone.png'')
   \<and> fst (closing_clip ex_world (ex_task\<lparr>files_list := [''gone.png'']\<rparr>)
        (snd (sample_files ex_world (ex_task\<lparr>files_list := [''gone.png'']\<rparr>) ex_state)))
     = Inr (Some (Set_duration (ImageClip ''/tmp/video_export_cache/23.png'' 1080 1080) 3))
   \<and> fst (run ex_world (ex_task\<lparr>files_list := [''gone.png'']\<rparr>) ex_state)
     = [Error ''Error in video 1: No valid files to process for video creation.'', Finished]"
proof -
  let ?t = "ex_task\<lparr>files_list := [''gone.png'']\<rparr>"
  have h1: "fst (sample_files ex_world ?t ex_state) = Inr [''gone.png'', ''gone.png'']"
    by code_simp
  have h2': "\<not> os_path_isfile ex_world (snd (sample_files ex_world ?t ex_state))
        (resolve ?t ''gone.png'')"
    by code_simp
  then have h2: "\<forall>fp\<in>set [''gone.png'', ''gone.png''].
        \<not> os_path_isfile ex_world (snd (sample_files ex_world ?t ex_state)) (resolve ?t fp)"
    by simp
  have h3: "fst (closing_clip ex_world ?t (snd (sample_files ex_world ?t ex_state)))
     = Inr (Some (Set_duration (ImageClip ''/tmp/video_export_cache/23.png'' 1080 1080) 3))"
    by code_simp
  have h4: "str_int (video_idx ?t) = ''1''"
    by code_simp
  show ?thesis
    using h1 h2' h3 h4 no_usable_asset_fails [OF h1 h2 h3]
    by simp
qed

section \<open>Signals\<close>

lemma run_signals:
  "\<exists>sig. fst (run w t s) = [sig, Finished] \<and> is_outcome sig \<and> outcome_of t sig"
  by (auto simp: run_def outcome_of_def split: prod.splits sum.splits)

lemma run_all_signals:
  "list_all2 outcome_of ts (filter is_outcome (fst (run_all w ts s)))
   \<and> count_list (fst (run_all w ts s)) Finished = length ts"
proof (induction ts arbitrary: s)
  case Nil
  show ?case by simp
next
  case (Cons t ts)
  obtain sigs s1 where r: "run w t s = (sigs, s1)" by (cases "run w t s")
  obtain sigs' s2 where r': "run_all w ts s1 = (sigs', s2)" by (cases "run_all w ts s1")
  from run_signals[of w t s] r obtain sig where
    sig: "sigs = [sig, Finished]" "is_outcome sig" "outcome_of t sig" by auto
  from Cons.IH[of s1] r' have "list_all2 outcome_of ts (filter is_outcome sigs')"
    "count_list sigs' Finished = length ts" by simp_all
  with sig r r' show ?case by auto
qed

text \<open>
  Claim C4. \<open>run\<close> emits two signals and no more: first the outcome, \<open>progress\<close> with the
  video index when the body returns or \<open>error\<close> with a message made of the index and
  the text of the exception when the body raises, then \<open>finished\<close>. It returns in both
  cases, so in a batch every task emits its own outcome and its own \<open>finished\<close>,
  whatever the tasks before it did.
\<close>

theorem run_emits_one_outcome_and_one_finished:
  "(fst (run_body w t s) = Inr () \<longrightarrow> fst (run w t s) = [Progress (video_idx t), Finished])
   \<and> (fst (run_body w t s) = Inl e \<longrightarrow>
        fst (run w t s)
          = [Error (''Error in video '' @ str_int (video_idx t) @ '': '' @ str_error e), Finished])
   \<and> length (filter is_outcome (fst (run w t s))) = 1
   \<and> count_list (fst (run w t s)) Finished = 1
   \<and> list_all2 outcome_of ts (filter is_outcome (fst (run_all w ts s)))
   \<and> count_list (fst (run_all w ts s)) Finished = length ts"
proof -
  from run_signals[of w t s] have "length (filter is_outcome (fst (run w t s))) = 1"
    "count_list (fst (run w t s)) Finished = 1"
    by auto
  moreover have "fst (run_body w t s) = Inr () \<longrightarrow> fst (run w t s) = [Progress (video_idx t), Finished]"
    by (auto simp: run_def split: prod.splits sum.splits)
  moreover have "fst (run_body w t s) = Inl e \<longrightarrow>
        fst (run w t s)
          = [Error (''Error in video '' @ str_int (video_idx t) @ '': '' @ str_error e), Finished]"
    by (auto simp: run_def split: prod.splits sum.splits)
  ultimately show ?thesis using run_all_signals[of ts w s] by simp
qed

text \<open>
  A task that succeeds, a task that fails, and a batch in which the failing task runs
  first and the next one still succeeds.
\<close>

theorem run_emits_one_outcome_and_one_finished_witness:
  "fst (run_body ex_world (ex_task\<lparr>video_idx := 2\<rparr>) ex_state) = Inr ()
   \<and> fst (run ex_world (ex_task\<lparr>video_idx := 2\<rparr>) ex_state) = [Progress 2, Finished]
   \<and> fst (run_body ex_world (ex_task\<lparr>files_list := [''gone.png'']\<rparr>) ex_state)
       = Inl (ValueError ''No valid files to process for video creation.'')
   \<and> fst (run ex_world (ex_task\<lparr>files_list := [''gone.png'']\<rparr>) ex_state)
       = [Error ''Error in video 1: No valid files to process for video creation.'', Finished]
   \<and> fst (run_all ex_world [ex_task\<lparr>files_list := [''gone.png'']\<rparr>, ex_task\<lparr>video_idx := 2\<rparr>]
            ex_state)
       = [Error ''Error in video 1: No valid files to process for video creation.'', Finished,
          Progress 2, Finished]"
proof -
  have b1: "fst (run_body ex_world (ex_task\<lparr>video_idx := 2\<rparr>) ex_state) = Inr ()"
    by code_simp
  have b2: "fst (run_body ex_world (ex_task\<lparr>files_list := [''gone.png'']\<rparr>) ex_state)
       = Inl (ValueError ''No valid files to process for video creation.'')"
    by code_simp
  have i1: "video_idx (ex_task\<lparr>video_idx := 2\<rparr>) = 2"
    and i2: "str_int (video_idx (ex_task\<lparr>files_list := [''gone.png'']\<rparr>)) = ''1''"
    by code_simp+
  have b3: "fst (run_all ex_world [ex_task\<lparr>files_list := [''gone.png'']\<rparr>, ex_task\<lparr>video_idx := 2\<rparr>]
            ex_state)
       = [Error ''Error in video 1: No valid files to process for video creation.'', Finished,
          Progress 2, Finished]"
    by code_simp
  show ?thesis
    using b1 b2 b3 i1 i2
      run_emits_one_outcome_and_one_finished [of ex_world "ex_task\<lparr>video_idx := 2\<rparr>" ex_state]
      run_emits_one_outcome_and_one_finished [of ex_world "ex_task\<lparr>files_list := [''gone.png'']\<rparr>"
        ex_state "ValueError ''No valid files to process for video creation.''"]
    by simp
qed

section \<open>Relative paths\<close>

lemma strip_eq_Nil: "strip s = [] \<longleftrightarrow> (\<forall>c\<in>set s. is_space c)"
proof
  assume "strip s = []"
  then have all: "\<forall>c\<in>set (dropWhile is_space s). is_space c"
    by (simp add: strip_def dropWhile_eq_Nil_conv)
  have "dropWhile is_space s = []"
  proof (cases "dropWhile is_space s")
    case Nil
    then show ?thesis .
  next
    case (Cons c cs)
    with hd_dropWhile[of is_space s] have "\<not> is_space c" by simp
    with all Cons show ?thesis by simp
  qed
  then show "\<forall>c\<in>set s. is_space c"
    by (simp add: dropWhile_eq_Nil_conv)
next
  assume "\<forall>c\<in>set s. is_space c"
  then show "strip s = []"
    by (auto simp: strip_def dest: set_dropWhileD)
qed

lemma isabs_path_join: "isabs a \<Longrightarrow> isabs (path_join a b)"
  by (cases a) (auto simp: isabs_def path_join_def split: list.splits)

lemma strip_abs: "isabs p \<Longrightarrow> p \<noteq> [] \<and> strip p \<noteq> []"
  by (cases p) (auto simp: isabs_def strip_eq_Nil is_space_def)

lemma image_clip_params:
  "width (params t') = width (params t) \<Longrightarrow> height (params t') = height (params t) \<Longrightarrow>
   image_clip w t' p d s = image_clip w t p d s"
  by (simp add: image_clip_def)

text \<open>
  Claim C10. With an absolute base directory, a relative selected path behaves as the
  path joined to the base directory, and so does a relative closing-image path. The
  audio path is tested as it is given: a relative one that names nothing under the
  working directory of the process leaves the clip without a track, whatever lies
  under the base directory.
\<close>

theorem relative_paths:
  "(isabs (base_dir t) \<and> \<not> isabs fp \<longrightarrow>
      asset_clip w t fp s = asset_clip w t (path_join (base_dir t) fp) s)
   \<and> (isabs (base_dir t) \<and> closing_image (params t) = Some ci \<and> strip ci \<noteq> [] \<and> \<not> isabs ci \<longrightarrow>
      closing_clip w t s
        = closing_clip w (t\<lparr>params := (params t)\<lparr>closing_image := Some (path_join (base_dir t) ci)\<rparr>\<rparr>) s)
   \<and> (audio_file (params t) = Some af \<and> \<not> isabs af \<and> files s (path_join (cwd w) af) = None \<longrightarrow>
      attach_audio w t fc s = Inr fc)"
proof (intro conjI impI)
  assume "isabs (base_dir t) \<and> \<not> isabs fp"
  then show "asset_clip w t fp s = asset_clip w t (path_join (base_dir t) fp) s"
    by (simp add: asset_clip_def resolve_def isabs_path_join)
next
  assume a: "isabs (base_dir t) \<and> closing_image (params t) = Some ci \<and> strip ci \<noteq> [] \<and> \<not> isabs ci"
  let ?t' = "t\<lparr>params := (params t)\<lparr>closing_image := Some (path_join (base_dir t) ci)\<rparr>\<rparr>"
  from a have abs: "isabs (path_join (base_dir t) ci)" by (simp add: isabs_path_join)
  have ne: "ci \<noteq> []" using a by (auto simp: strip_def)
  have img: "\<And>p. image_clip w ?t' p 3 s = image_clip w t p 3 s"
    by (rule image_clip_params) simp_all
  show "closing_clip w t s = closing_clip w ?t' s"
    using a abs ne strip_abs[OF abs] img
    by (simp add: closing_clip_def resolve_def Let_def)
next
  assume "audio_file (params t) = Some af \<and> \<not> isabs af \<and> files s (path_join (cwd w) af) = None"
  then show "attach_audio w t fc s = Inr fc"
    by (simp add: attach_audio_def os_path_isfile_def abspath_def)
qed

text \<open>
  \<open>song.mp3\<close> lies under the base directory and not under the working directory: no
  track is attached.
\<close>

theorem relative_paths_witness:
  "isabs (base_dir ex_task) \<and> \<not> isabs ''x.png''
   \<and> fst (asset_clip ex_world ex_task ''/base/x.png'' ex_state)
       = Inr (Some (Set_duration (ImageClip ''/tmp/video_export_cache/21.png'' 1080 1080) 2))
   \<and> fst (asset_clip ex_world ex_task ''x.png'' ex_state)
       = Inr (Some (Set_duration (ImageClip ''/tmp/video_export_cache/21.png'' 1080 1080) 2))
   \<and> closing_image (params ex_task) = Some ''end.mp4'' \<and> strip ''end.mp4'' \<noteq> [] \<and> \<not> isabs ''end.mp4''
   \<and> fst (closing_clip ex_world
            (ex_task\<lparr>params := (params ex_task)\<lparr>closing_image := Some ''/base/end.mp4''\<rparr>\<rparr>) ex_state)
       = Inr (Some (Set_duration (ImageClip ''/tmp/video_export_cache/23.png'' 1080 1080) 3))
   \<and> fst (closing_clip ex_world ex_task ex_state)
       = Inr (Some (Set_duration (ImageClip ''/tmp/video_export_cache/23.png'' 1080 1080) 3))
   \<and> audio_file (params ex_task) = Some ''song.mp3'' \<and> \<not> isabs ''song.mp3''
   \<and> files ex_state (path_join (cwd ex_world) ''song.mp3'') = None
   \<and> files ex_state (path_join (base_dir ex_task) ''song.mp3'') = Some (AudioData 4)
   \<and> attach_audio ex_world ex_task (Set_duration (ImageClip ''f'' 4 4) 10) ex_state
       = Inr (Set_duration (ImageClip ''f'' 4 4) 10)"
proof -
  have h1: "isabs (base_dir ex_task)" "\<not> isabs ''x.png''" "\<not> isabs ''end.mp4''"
    "\<not> isabs ''song.mp3''" "strip ''end.mp4'' \<noteq> []"
    "closing_image (params ex_task) = Some ''end.mp4''"
    "audio_file (params ex_task) = Some ''song.mp3''"
    "path_join (base_dir ex_task) ''x.png'' = ''/base/x.png''"
    "path_join (base_dir ex_task) ''end.mp4'' = ''/base/end.mp4''"
    by code_simp+
  have h2: "files ex_state (path_join (cwd ex_world) ''song.mp3'') = None"
    "files ex_state (path_join (base_dir ex_task) ''song.mp3'') = Some (AudioData 4)"
    by code_simp+
  have h3: "fst (asset_clip ex_world ex_task ''/base/x.png'' ex_state)
       = Inr (Some (Set_duration (ImageClip ''/tmp/video_export_cache/21.png'' 1080 1080) 2))"
    by code_simp
  have h4: "fst (closing_clip ex_world
            (ex_task\<lparr>params := (params ex_task)\<lparr>closing_image := Some ''/base/end.mp4''\<rparr>\<rparr>) ex_state)
       = Inr (Some (Set_duration (ImageClip ''/tmp/video_export_cache/23.png'' 1080 1080) 3))"
    by code_simp
  show ?thesis
    using h1 h2 h3 h4
      relative_paths [of ex_task "''x.png''" ex_world ex_state "''end.mp4''" "''song.mp3''"
        "Set_duration (ImageClip ''f'' 4 4) 10"]
    by simp
qed

section \<open>The selection\<close>





section \<open>A failing frame-producing step\<close>

text \<open>
  Against claim C2 as it is stated: with a disk on which the write stops partway, the
  call for \<open>/base/x.png\<close> raises, and the destination, absent before, holds a
  truncated file after; the next call takes that file for the cache entry.
\<close>

theorem failed_frame_counterexample:
  "files ex_state ''/tmp/video_export_cache/21.png'' = None
   \<and> fst (processed_file ex_world_full_disk ''/base/x.png'' 1080 1080 ex_state)
       = Inl (BackendError ''cannot write /tmp/video_export_cache/21.png'')
   \<and> files (snd (processed_file ex_world_full_disk ''/base/x.png'' 1080 1080 ex_state))
         ''/tmp/video_export_cache/21.png'' = Some Truncated
   \<and> fst (processed_file ex_world_full_disk ''/base/x.png'' 1080 1080
           (snd (processed_file ex_world_full_disk ''/base/x.png'' 1080 1080 ex_state)))
       = Inr ''/tmp/video_export_cache/21.png''"
  by code_simp

text \<open>
  Claim C2, amended. When the frame-producing step fails while creating a cache entry,
  the error propagates to the caller, with the state the step left. The frame is
  written by \<open>save_frame\<close> at the destination path itself: nothing is left there when
  the failure comes before any data is written (the source cannot be loaded, or the
  write fails at once), and a write that fails partway leaves its truncated file there.
\<close>

theorem failed_frame_propagates:
  assumes "fst (processed_file w p (width (params t)) (height (params t)) s) = Inl e"
  shows "image_clip w t p d s
           = (Inl e, snd (processed_file w p (width (params t)) (height (params t)) s))
         \<and> \<not> os_path_exists w s (cache_file w p (width (params t)) (height (params t)))
         \<and> files (snd (processed_file w p (width (params t)) (height (params t)) s))
           = (if (\<exists>img. load_image w s p = Inr img)
                 \<and> disk_write w (abspath w (cache_file w p (width (params t)) (height (params t))))
                     = Fails_partway
              then (files s)(abspath w (cache_file w p (width (params t)) (height (params t)))
                              \<mapsto> Truncated)
              else files s)"
proof -
  let ?cf = "cache_file w p (width (params t)) (height (params t))"
  let ?r = "processed_file w p (width (params t)) (height (params t)) s"
  have 1: "image_clip w t p d s = (Inl e, snd ?r)"
    using assms by (cases ?r) (auto simp: image_clip_def)
  have 2: "\<not> os_path_exists w s ?cf"
    using assms by (auto simp: processed_file_def Let_def split: if_splits)
  have li: "load_image w (s\<lparr>producer_runs := producer_runs s @ [?cf]\<rparr>) p = load_image w s p"
    by (simp add: load_image_def)
  have 3: "files (snd ?r)
           = (if (\<exists>img. load_image w s p = Inr img) \<and> disk_write w (abspath w ?cf) = Fails_partway
              then (files s)(abspath w ?cf \<mapsto> Truncated) else files s)"
    using assms 2
    by (auto simp: processed_file_def Let_def li save_frame_def write_file_def
        split: sum.splits write_outcome.splits)
  from 1 2 3 show ?thesis by simp
qed

text \<open>A write that stops partway, and a source that is no image.\<close>

theorem failed_frame_propagates_witness:
  "fst (processed_file ex_world_full_disk ''/base/x.png'' (width (params ex_task))
          (height (params ex_task)) ex_state)
     = Inl (BackendError ''cannot write /tmp/video_export_cache/21.png'')
   \<and> fst (image_clip ex_world_full_disk ex_task ''/base/x.png'' 2 ex_state)
     = Inl (BackendError ''cannot write /tmp/video_export_cache/21.png'')
   \<and> files (snd (processed_file ex_world_full_disk ''/base/x.png'' (width (params ex_task))
          (height (params ex_task)) ex_state))
     = (files ex_state)(''/tmp/video_export_cache/21.png'' \<mapsto> Truncated)
   \<and> fst (processed_file ex_world ''/base/song.mp3'' (width (params ex_task))
          (height (params ex_task)) ex_state)
     = Inl (BackendError ''cannot read image /base/song.mp3'')
   \<and> fst (image_clip ex_world ex_task ''/base/song.mp3'' 2 ex_state)
     = Inl (BackendError ''cannot read image /base/song.mp3'')
   \<and> files (snd (processed_file ex_world ''/base/song.mp3'' (width (params ex_task))
          (height (params ex_task)) ex_state))
     = files ex_state"
proof -
  have h1: "fst (processed_file ex_world_full_disk ''/base/x.png'' (width (params ex_task))
          (height (params ex_task)) ex_state)
     = Inl (BackendError ''cannot write /tmp/video_export_cache/21.png'')"
    by code_simp
  have h2: "fst (processed_file ex_world ''/base/song.mp3'' (width (params ex_task))
          (height (params ex_task)) ex_state)
     = Inl (BackendError ''cannot read image /base/song.mp3'')"
    by code_simp
  have e1: "load_image ex_world_full_disk ex_state ''/base/x.png''
              = Inr (ImageClip ''/base/x.png'' 400 300)"
    "abspath ex_world_full_disk
        (cache_file ex_world_full_disk ''/base/x.png'' (width (params ex_task))
           (height (params ex_task))) = ''/tmp/video_export_cache/21.png''"
    "disk_write ex_world_full_disk ''/tmp/video_export_cache/21.png'' = Fails_partway"
    by code_simp+
  have e2: "load_image ex_world ex_state ''/base/song.mp3''
              = Inl (BackendError ''cannot read image /base/song.mp3'')"
    by code_simp
  show ?thesis
    using h1 h2 e1 e2
      failed_frame_propagates [OF h1, of 2] failed_frame_propagates [OF h2, of 2]
    by simp
qed

section \<open>A cached frame is produced once\<close>

lemma cache_file_nonempty: "cache_file w p wd ht \<noteq> []"
  by (auto simp: cache_file_def path_join_def isabs_def split: list.splits)

lemma write_file_keeps:
  "os_path_exists w s cf \<Longrightarrow>
   os_path_exists w (snd (write_file w q f s)) cf
   \<and> producer_runs (snd (write_file w q f s)) = producer_runs s"
  by (auto simp: write_file_def os_path_exists_def split: write_outcome.splits)

lemma processed_file_keeps:
  assumes "os_path_exists w s cf"
  shows "os_path_exists w (snd (processed_file w p wd ht s)) cf
         \<and> count_list (producer_runs (snd (processed_file w p wd ht s))) cf
           = count_list (producer_runs s) cf"
proof (cases "os_path_exists w s (cache_file w p wd ht)")
  case True
  with assms show ?thesis by (simp add: processed_file_def)
next
  case False
  with assms have ne: "cache_file w p wd ht \<noteq> cf" by auto
  let ?s0 = "s\<lparr>producer_runs := producer_runs s @ [cache_file w p wd ht]\<rparr>"
  have s0: "os_path_exists w ?s0 cf" using assms by (simp add: os_path_exists_def)
  have c0: "count_list (producer_runs ?s0) cf = count_list (producer_runs s) cf"
    using ne by (simp add: count_list_append)
  show ?thesis
  proof (cases "load_image w ?s0 p")
    case (Inl e)
    with False s0 c0 show ?thesis by (simp add: processed_file_def)
  next
    case (Inr img)
    let ?c = "crop_or_pad (Resize_height img ht) wd ht"
    let ?r = "write_file w (cache_file w p wd ht) (ImageData (clip_w ?c) (clip_h ?c)) ?s0"
    from write_file_keeps[OF s0] have "os_path_exists w (snd ?r) cf"
      "producer_runs (snd ?r) = producer_runs ?s0" by simp_all
    with False Inr c0 show ?thesis
      by (cases ?r) (auto simp: processed_file_def Let_def save_frame_def split: sum.splits)
  qed
qed

lemma image_clip_keeps:
  "os_path_exists w s cf \<Longrightarrow>
   os_path_exists w (snd (image_clip w t p d s)) cf
   \<and> count_list (producer_runs (snd (image_clip w t p d s))) cf = count_list (producer_runs s) cf"
  using processed_file_keeps[of w s cf p "width (params t)" "height (params t)"]
  by (cases "processed_file w p (width (params t)) (height (params t)) s")
     (auto simp: image_clip_def split: sum.splits)

lemma asset_clip_keeps:
  "os_path_exists w s cf \<Longrightarrow>
   os_path_exists w (snd (asset_clip w t fp s)) cf
   \<and> count_list (producer_runs (snd (asset_clip w t fp s))) cf = count_list (producer_runs s) cf"
  using image_clip_keeps[of w s cf t "resolve t fp" "per_image_time (params t)"]
  by (cases "image_clip w t (resolve t fp) (per_image_time (params t)) s")
     (auto simp: asset_clip_def Let_def split: sum.splits)

lemma asset_clips_keeps:
  "os_path_exists w s cf \<Longrightarrow>
   os_path_exists w (snd (asset_clips w t fps s)) cf
   \<and> count_list (producer_runs (snd (asset_clips w t fps s))) cf = count_list (producer_runs s) cf"
proof (induction fps arbitrary: s)
  case Nil
  then show ?case by simp
next
  case (Cons fp fps)
  obtain r s1 where a: "asset_clip w t fp s = (r, s1)" by (cases "asset_clip w t fp s")
  from asset_clip_keeps[OF Cons.prems, of t fp] a have k1: "os_path_exists w s1 cf"
    "count_list (producer_runs s1) cf = count_list (producer_runs s) cf" by simp_all
  obtain r' s2 where b: "asset_clips w t fps s1 = (r', s2)" by (cases "asset_clips w t fps s1")
  from Cons.IH[OF k1(1)] b have k2: "os_path_exists w s2 cf"
    "count_list (producer_runs s2) cf = count_list (producer_runs s1) cf" by simp_all
  from a b k1 k2 show ?case by (auto split: sum.splits)
qed

lemma closing_clip_keeps:
  "os_path_exists w s cf \<Longrightarrow>
   os_path_exists w (snd (closing_clip w t s)) cf
   \<and> count_list (producer_runs (snd (closing_clip w t s))) cf = count_list (producer_runs s) cf"
proof (cases "closing_image (params t)")
  case None
  assume "os_path_exists w s cf"
  with None show ?thesis by (simp add: closing_clip_def)
next
  case (Some ci)
  assume ex: "os_path_exists w s cf"
  from image_clip_keeps[OF ex, of t "resolve t ci" 3] Some ex show ?thesis
    by (cases "image_clip w t (resolve t ci) 3 s")
       (auto simp: closing_clip_def Let_def split: sum.splits)
qed

lemma sample_files_keeps:
  "os_path_exists w s cf \<Longrightarrow>
   os_path_exists w (snd (sample_files w t s)) cf
   \<and> count_list (producer_runs (snd (sample_files w t s))) cf = count_list (producer_runs s) cf"
  by (auto simp: sample_files_def random_choices_def random_sample_def os_path_exists_def)

lemma run_body_keeps:
  assumes "os_path_exists w s cf"
  shows "os_path_exists w (snd (run_body w t s)) cf
         \<and> count_list (producer_runs (snd (run_body w t s))) cf = count_list (producer_runs s) cf"
proof -
  obtain r0 s0 where a0: "sample_files w t s = (r0, s0)" by (cases "sample_files w t s")
  from sample_files_keeps[OF assms, of t] a0 have k0: "os_path_exists w s0 cf"
    "count_list (producer_runs s0) cf = count_list (producer_runs s) cf" by simp_all
  show ?thesis
  proof (cases r0)
    case (Inl e)
    with a0 k0 show ?thesis by (simp add: run_body_def)
  next
    case (Inr sel)
    obtain r1 s1 where a1: "asset_clips w t sel s0 = (r1, s1)" by (cases "asset_clips w t sel s0")
    from asset_clips_keeps[OF k0(1), of t sel] a1 k0 have k1: "os_path_exists w s1 cf"
      "count_list (producer_runs s1) cf = count_list (producer_runs s) cf" by simp_all
    obtain r2 s2 where a2: "closing_clip w t s1 = (r2, s2)" by (cases "closing_clip w t s1")
    from closing_clip_keeps[OF k1(1), of t] a2 k1 have k2: "os_path_exists w s2 cf"
      "count_list (producer_runs s2) cf = count_list (producer_runs s) cf" by simp_all
    have k3: "\<And>c. os_path_exists w (snd (write_videofile w c (output_path t) s2)) cf
      \<and> count_list (producer_runs (snd (write_videofile w c (output_path t) s2))) cf
          = count_list (producer_runs s) cf"
      using write_file_keeps[OF k2(1)] k2(2) by (simp add: write_videofile_def)
    from a0 Inr a1 a2 k1 k2 k3 show ?thesis
      by (auto simp: run_body_def split: sum.splits)
  qed
qed

lemma run_keeps:
  "os_path_exists w s cf \<Longrightarrow>
   os_path_exists w (snd (run w t s)) cf
   \<and> count_list (producer_runs (snd (run w t s))) cf = count_list (producer_runs s) cf"
  using run_body_keeps[of w s cf t]
  by (cases "run_body w t s") (auto simp: run_def split: sum.splits)

lemma run_all_keeps:
  "os_path_exists w s cf \<Longrightarrow>
   os_path_exists w (snd (run_all w ts s)) cf
   \<and> count_list (producer_runs (snd (run_all w ts s))) cf = count_list (producer_runs s) cf"
proof (induction ts arbitrary: s)
  case Nil
  then show ?case by simp
next
  case (Cons t ts)
  obtain sigs s1 where a: "run w t s = (sigs, s1)" by (cases "run w t s")
  from run_keeps[OF Cons.prems, of t] a have k1: "os_path_exists w s1 cf"
    "count_list (producer_runs s1) cf = count_list (producer_runs s) cf" by simp_all
  obtain sigs' s2 where b: "run_all w ts s1 = (sigs', s2)" by (cases "run_all w ts s1")
  from Cons.IH[OF k1(1)] b k1 a show ?case by simp
qed

lemma processed_file_first:
  assumes "fst (processed_file w p wd ht s) = Inr cf"
  shows "cf = cache_file w p wd ht
         \<and> os_path_exists w (snd (processed_file w p wd ht s)) cf
         \<and> count_list (producer_runs (snd (processed_file w p wd ht s))) cf
             \<le> count_list (producer_runs s) cf + 1"
proof (cases "os_path_exists w s (cache_file w p wd ht)")
  case True
  with assms show ?thesis by (simp add: processed_file_def)
next
  case False
  let ?cf = "cache_file w p wd ht"
  let ?s0 = "s\<lparr>producer_runs := producer_runs s @ [?cf]\<rparr>"
  from assms False obtain img where img: "load_image w ?s0 p = Inr img"
    by (cases "load_image w ?s0 p") (auto simp: processed_file_def Let_def)
  let ?c = "crop_or_pad (Resize_height img ht) wd ht"
  from assms False img have w: "disk_write w (abspath w ?cf) = Written" and cf: "cf = ?cf"
    by (auto simp: processed_file_def Let_def save_frame_def write_file_def
        split: write_outcome.splits)
  from False img w have
    "snd (processed_file w p wd ht s)
       = ?s0\<lparr>files := (files ?s0)(abspath w ?cf \<mapsto> ImageData (clip_w ?c) (clip_h ?c))\<rparr>"
    by (simp add: processed_file_def Let_def save_frame_def write_file_def)
  with cf show ?thesis
    by (simp add: os_path_exists_def cache_file_nonempty count_list_append)
qed

lemma processed_file_hit:
  "os_path_exists w s (cache_file w p wd ht) \<Longrightarrow>
   processed_file w p wd ht s = (Inr (cache_file w p wd ht), s)"
  by (simp add: processed_file_def)

text \<open>
  Claim C3. When a call for a source path, width and height returns a path, that path
  is the cache file of the triple, and the call ran the frame-producing branch at most
  once. After any batch of tasks run since, a second call for the triple returns the
  same path, changes nothing, and the frame-producing branch has not run again for
  that cache file.
\<close>

theorem cached_frame_produced_once:
  assumes "fst (processed_file w p wd ht s) = Inr cf"
  shows "cf = cache_file w p wd ht
         \<and> count_list (producer_runs (snd (processed_file w p wd ht s))) cf
             \<le> count_list (producer_runs s) cf + 1
         \<and> processed_file w p wd ht (snd (run_all w ts (snd (processed_file w p wd ht s))))
             = (Inr cf, snd (run_all w ts (snd (processed_file w p wd ht s))))
         \<and> count_list (producer_runs (snd (run_all w ts (snd (processed_file w p wd ht s))))) cf
             = count_list (producer_runs (snd (processed_file w p wd ht s))) cf"
proof -
  let ?s1 = "snd (processed_file w p wd ht s)"
  let ?s2 = "snd (run_all w ts ?s1)"
  from processed_file_first[OF assms] have cf: "cf = cache_file w p wd ht"
    and ex: "os_path_exists w ?s1 cf"
    and le: "count_list (producer_runs ?s1) cf \<le> count_list (producer_runs s) cf + 1"
    by blast+
  from run_all_keeps[OF ex, of ts] have ex2: "os_path_exists w ?s2 cf"
    and eq: "count_list (producer_runs ?s2) cf = count_list (producer_runs ?s1) cf"
    by simp_all
  from ex2 cf have "processed_file w p wd ht ?s2 = (Inr cf, ?s2)"
    using processed_file_hit[of w ?s2 p wd ht] by blast
  with cf le eq show ?thesis by simp
qed

text \<open>
  The frame of \<open>/base/x.png\<close> is produced by the first call; the two tasks that run
  after it produce only the frame of the closing image, once.
\<close>

theorem cached_frame_produced_once_witness:
  "fst (processed_file ex_world ''/base/x.png'' 1080 1080 ex_state)
     = Inr ''/tmp/video_export_cache/21.png''
   \<and> cache_file ex_world ''/base/x.png'' 1080 1080 = ''/tmp/video_export_cache/21.png''
   \<and> producer_runs (snd (processed_file ex_world ''/base/x.png'' 1080 1080 ex_state))
     = [''/tmp/video_export_cache/21.png'']
   \<and> fst (processed_file ex_world ''/base/x.png'' 1080 1080
        (snd (run_all ex_world [ex_task, ex_task\<lparr>video_idx := 2\<rparr>]
           (snd (processed_file ex_world ''/base/x.png'' 1080 1080 ex_state)))))
     = Inr ''/tmp/video_export_cache/21.png''
   \<and> producer_runs (snd (run_all ex_world [ex_task, ex_task\<lparr>video_idx := 2\<rparr>]
           (snd (processed_file ex_world ''/base/x.png'' 1080 1080 ex_state))))
     = [''/tmp/video_export_cache/21.png'', ''/tmp/video_export_cache/23.png'']"
proof -
  have h: "fst (processed_file ex_world ''/base/x.png'' 1080 1080 ex_state)
     = Inr ''/tmp/video_export_cache/21.png''"
    by code_simp
  have r1: "producer_runs (snd (processed_file ex_world ''/base/x.png'' 1080 1080 ex_state))
     = [''/tmp/video_export_cache/21.png'']"
    by code_simp
  have r2: "producer_runs (snd (run_all ex_world [ex_task, ex_task\<lparr>video_idx := 2\<rparr>]
           (snd (processed_file ex_world ''/base/x.png'' 1080 1080 ex_state))))
     = [''/tmp/video_export_cache/21.png'', ''/tmp/video_export_cache/23.png'']"
    by code_simp
  show ?thesis
    using h r1 r2
      cached_frame_produced_once [OF h, of "[ex_task, ex_task\<lparr>video_idx := 2\<rparr>]"]
    by simp
qed

end
